theory Spec2Isabelle
  imports Main "HOL-Library.Word"
begin

section \<open>Data model\<close>

text \<open>
  The application peer synchronisation subsystem of the node: the \<open>Application\<close> struct
  of \<^verbatim>\<open>application/application.go\<close>, the \<open>AppStatus\<close> wire message of
  \<^verbatim>\<open>application/proto/syncer.proto\<close> and the \<open>syncer\<close> of the Go file that follows it.

  Go's \<open>uint64\<close> is a 64-bit word. A \<open>float32\<close> is only ever copied by the code
  modelled here, so it is carried as its 32-bit IEEE-754 pattern. A libp2p \<open>peer.ID\<close>
  (Go: \<open>type ID string\<close>) is represented by its textual form, the value of
  \<open>PeerID.String()\<close>; a multiaddress likewise by the value of its \<open>String()\<close>.
\<close>

type_synonym uint64 = "64 word"
type_synonym float32 = "32 word"
type_synonym peer_ID = string

subsection \<open>Application (application.go)\<close>

record Application =
  Name :: string
  Tag :: string
  Version :: string
  PeerID :: peer_ID
  IpAddr :: string
  AppOrigin :: string
  ModelHash :: string
  Mac :: string
  MemInfo :: string
  CpuInfo :: string
  StartupTime :: uint64
  Uptime :: uint64
  GuageHeight :: uint64
  GuageMax :: uint64

text \<open>
  \<open>Copy\<close> builds a new struct from a composite literal that names ten fields; the four
  fields the literal leaves out take Go's zero value, the empty string.
\<close>

definition Copy :: "Application \<Rightarrow> Application" where
  "Copy a =
     \<lparr>Name = Name a,
      Tag = Tag a,
      Version = Version a,
      PeerID = PeerID a,
      IpAddr = IpAddr a,
      AppOrigin = AppOrigin a,
      ModelHash = [],
      Mac = [],
      MemInfo = [],
      CpuInfo = [],
      StartupTime = StartupTime a,
      Uptime = Uptime a,
      GuageHeight = GuageHeight a,
      GuageMax = GuageMax a\<rparr>"

subsection \<open>AppStatus (syncer.proto)\<close>

text \<open>The wire message, field by field in the order of the field numbers 1 to 16.\<close>

record AppStatus =
  name :: string
  startup_time :: uint64
  uptime :: uint64
  guage_height :: uint64
  guage_max :: uint64
  relay :: string
  node_id :: string
  addr :: string
  app_origin :: string
  model_hash :: string
  mac :: string
  memInfo :: string
  cpu_info :: string
  average_power :: float32
  gpu_info :: string
  version :: string

subsection \<open>Collaborators of the syncer\<close>

text \<open>
  Modelled from the spec: the \<open>ApplicationStore\<close> interface and the type that its
  \<open>GetEndpointApplication()\<close> returns are not among the sources. The spec calls it the
  endpoint application, this node's own application descriptor, read by the publisher.
  \<open>doPublishAppStatus\<close> reads from it fields of \<open>Application\<close> and, besides, \<open>GpuInfo\<close>
  and \<open>AveragePower\<close>, so the descriptor is \<open>Application\<close> extended by these two.
\<close>

record EndpointApplication = Application +
  GpuInfo :: string
  AveragePower :: float32

text \<open>
  The libp2p host (an external library): only its identity and its list of listening
  addresses are used.
\<close>

record host =
  host_ID :: peer_ID
  Addrs :: "string list"

text \<open>
  Modelled from the spec: the \<open>AppPeer\<close> struct is not among the sources (the syncer
  names only its field \<open>ID\<close>). The attributes are those the spec's data model lists for
  a known remote peer; the last-seen timestamp is a reading of a monotonic clock.
\<close>

record AppPeer =
  ID :: peer_ID
  pName :: string
  pAppOrigin :: string
  pModelHash :: string
  pVersion :: string
  pStartupTime :: uint64
  pUptime :: uint64
  pGuageHeight :: uint64
  pGuageMax :: uint64
  pRelay :: string
  pAddr :: string
  pCpuInfo :: string
  pGpuInfo :: string
  pMemInfo :: string
  pMac :: string
  pAveragePower :: float32
  pLastSeen :: nat

text \<open>
  Modelled from the spec: \<open>PeerMap\<close> is not among the sources. It maps a peer identifier
  to an \<open>AppPeer\<close>. \<open>Put\<close> inserts or replaces the entry of each given status under the
  status's peer identifier and sets its last-seen to now (the syncer calls it with one
  status and, in \<open>initializePeerMap\<close>, with a slice); \<open>Get\<close> returns a copy of the entry
  or absent; \<open>Remove\<close> deletes the entry and is idempotent. All three are total.
\<close>

type_synonym PeerMap = "peer_ID \<rightharpoonup> AppPeer"

definition PeerMap_Put :: "nat \<Rightarrow> AppPeer list \<Rightarrow> PeerMap \<Rightarrow> PeerMap" where
  "PeerMap_Put now statuses m =
     foldl (\<lambda>m' status. m'(ID status \<mapsto> status\<lparr>pLastSeen := now\<rparr>)) m statuses"

definition PeerMap_Get :: "peer_ID \<Rightarrow> PeerMap \<Rightarrow> AppPeer option" where
  "PeerMap_Get peer m = m peer"

definition PeerMap_Remove :: "peer_ID \<Rightarrow> PeerMap \<Rightarrow> PeerMap" where
  "PeerMap_Remove peer m = m(peer := None)"

text \<open>Go \<open>error\<close> values returned by the collaborators.\<close>

datatype error = ErrAlreadyStarted | Err string

text \<open>
  Modelled from the spec: the \<open>SyncAppPeerClient\<close> interface and its implementation are
  not among the sources. The state kept here is what the syncer can observe of it: the
  error, if any, that subscribing to the overlay gives at \<open>Start\<close>; whether \<open>Start\<close> has
  succeeded and with which topic flag; whether \<open>Close\<close> has run, which stops the
  subscriber loop and closes the status update channel; the arguments of
  \<open>PublishApplicationStatus\<close> so far, oldest first; and the list that
  \<open>GetConnectedPeerStatuses\<close> returns.
\<close>

record SyncAppPeerClient =
  cl_startErr :: "error option"
  cl_started :: bool
  cl_subscribed :: bool
  cl_closed :: bool
  cl_published :: "AppStatus list"
  cl_connectedPeerStatuses :: "AppPeer list"

text \<open>
  Modelled from the spec: \<open>SyncClient.Start\<close> subscribes to the status topic if the flag
  is set and spawns the subscriber loop; a second \<open>Start\<close> returns an already-started
  error; an error of the overlay at start surfaces to the caller.
\<close>

definition client_Start :: "bool \<Rightarrow> SyncAppPeerClient \<Rightarrow> error option \<times> SyncAppPeerClient" where
  "client_Start topicSubFlag c =
     (if cl_started c then (Some ErrAlreadyStarted, c)
      else (case cl_startErr c of
              Some err \<Rightarrow> (Some err, c)
            | None \<Rightarrow> (None, c\<lparr>cl_started := True, cl_subscribed := topicSubFlag\<rparr>)))"

text \<open>
  Modelled from the spec: \<open>SyncClient.Close\<close> stops the subscriber loop and closes the
  update channel.
\<close>

definition client_Close :: "SyncAppPeerClient \<Rightarrow> SyncAppPeerClient" where
  "client_Close c = c\<lparr>cl_closed := True\<rparr>"

text \<open>
  Modelled from the spec: \<open>PublishApplicationStatus\<close> forwards the status to the overlay
  topic; a failure to publish is logged and swallowed. The call is recorded.
\<close>

definition PublishApplicationStatus :: "AppStatus \<Rightarrow> SyncAppPeerClient \<Rightarrow> SyncAppPeerClient" where
  "PublishApplicationStatus status c = c\<lparr>cl_published := cl_published c @ [status]\<rparr>"

definition GetConnectedPeerStatuses :: "SyncAppPeerClient \<Rightarrow> AppPeer list" where
  "GetConnectedPeerStatuses c = cl_connectedPeerStatuses c"

text \<open>
  Modelled from the spec: the \<open>SyncAppPeerService\<close> interface and its implementation
  are not among the sources. The syncer starts it, and closes it with a call that may
  return an error; \<open>sv_closed\<close> records that \<open>Close\<close> has been called on it.
\<close>

record SyncAppPeerService =
  sv_closeErr :: "error option"
  sv_started :: bool
  sv_closed :: bool

definition service_Start :: "SyncAppPeerService \<Rightarrow> SyncAppPeerService" where
  "service_Start sv = sv\<lparr>sv_started := True\<rparr>"

definition service_Close :: "SyncAppPeerService \<Rightarrow> error option \<times> SyncAppPeerService" where
  "service_Close sv = (sv_closeErr sv, sv\<lparr>sv_closed := True\<rparr>)"

text \<open>
  Modelled from the spec: the status subscriber, part of the absent client. It consumes
  a message of the overlay topic (\<open>None\<close> for one that does not decode), discards it
  when it is malformed, when its peer identifier is empty or this node's, or when its
  gauge height exceeds its gauge max, and otherwise translates it to an \<open>AppPeer\<close> and
  emits it on the status update channel. It runs from a \<open>Start\<close> with the topic flag
  set until \<open>Close\<close>. This node's identifier is the identity of its host.
\<close>

definition toAppPeer :: "AppStatus \<Rightarrow> AppPeer" where
  "toAppPeer st =
     \<lparr>ID = node_id st,
      pName = name st,
      pAppOrigin = app_origin st,
      pModelHash = model_hash st,
      pVersion = version st,
      pStartupTime = startup_time st,
      pUptime = uptime st,
      pGuageHeight = guage_height st,
      pGuageMax = guage_max st,
      pRelay = relay st,
      pAddr = addr st,
      pCpuInfo = cpu_info st,
      pGpuInfo = gpu_info st,
      pMemInfo = memInfo st,
      pMac = mac st,
      pAveragePower = average_power st,
      pLastSeen = 0\<rparr>"

definition subscriber :: "peer_ID \<Rightarrow> SyncAppPeerClient \<Rightarrow> AppStatus option \<Rightarrow> AppPeer option" where
  "subscriber self c msg =
     (if cl_started c \<and> cl_subscribed c \<and> \<not> cl_closed c then
        (case msg of
           None \<Rightarrow> None
         | Some st \<Rightarrow>
             if node_id st = [] \<or> node_id st = self \<or> guage_max st < guage_height st
             then None
             else Some (toAppPeer st))
      else None)"

subsection \<open>Go channels of \<open>struct{}\<close>\<close>

text \<open>
  The state of a \<open>chan struct{}\<close>: its capacity, the number of values buffered, the
  number of goroutines blocked in a receive, and whether it is closed. The operations
  follow the language: closing a closed channel panics and closing wakes every
  receiver; a send in a \<open>select\<close> with a \<open>default\<close> case panics on a closed channel, hands
  the value to a waiting receiver, else buffers it if there is room, else takes the
  \<open>default\<close> case (the result's flag tells whether the send case was taken).
\<close>

datatype panic = send_on_closed_channel | close_of_closed_channel

record chan =
  ch_cap :: nat
  ch_buf :: nat
  ch_recvq :: nat
  ch_closed :: bool

definition make_chan :: "nat \<Rightarrow> chan" where
  "make_chan n = \<lparr>ch_cap = n, ch_buf = 0, ch_recvq = 0, ch_closed = False\<rparr>"

definition close_chan :: "chan \<Rightarrow> panic + chan" where
  "close_chan c =
     (if ch_closed c then Inl close_of_closed_channel
      else Inr (c\<lparr>ch_recvq := 0, ch_closed := True\<rparr>))"

definition select_send_default :: "chan \<Rightarrow> panic + bool \<times> chan" where
  "select_send_default c =
     (if ch_closed c then Inl send_on_closed_channel
      else if 0 < ch_recvq c then Inr (True, c\<lparr>ch_recvq := ch_recvq c - 1\<rparr>)
      else if ch_buf c < ch_cap c then Inr (True, c\<lparr>ch_buf := ch_buf c + 1\<rparr>)
      else Inr (False, c))"

section \<open>The syncer\<close>

subsection \<open>Constants\<close>

text \<open>
  A \<open>time.Duration\<close> is a signed 64-bit count of nanoseconds (a 64-bit word read
  with \<open>sint\<close>); \<open>time.Second\<close> is \<open>1000000000\<close>.
\<close>

type_synonym Duration = "64 word"

definition time_Second :: Duration where
  "time_Second = 1000000000"

definition DefaultAppStatusPublishDuration :: Duration where
  "DefaultAppStatusPublishDuration = 15 * 60 * time_Second"

subsection \<open>State\<close>

text \<open>
  A goroutine that \<open>Start\<close> spawns is not yet spawned, spawned and about to run its
  first statement, inside its loop (blocked on its channel between iterations), or
  has returned.
\<close>

datatype task = NotSpawned | Spawned | Looping | Exited

text \<open>
  The \<open>syncer\<close> struct. The logger and the blockchain store are left out: the syncer
  never reads the store and logging has no effect on the state. The collaborators are
  held by value. The last four fields are not fields of the struct: they are the state
  of the fan-in goroutine (\<open>startPeerStatusUpdateProcess\<close>) and of the publisher
  goroutine (the function literal in \<open>Start\<close>), the period of the ticker the publisher
  has created, and the panic, if any, that has ended the process.
\<close>

record syncer =
  peerMap :: PeerMap
  syncAppPeerClient :: SyncAppPeerClient
  syncAppPeerService :: SyncAppPeerService
  blockTimeout :: Duration
  newStatusCh :: chan
  host :: host
  applicationStore :: EndpointApplication
  peersBlockNumMap :: "peer_ID \<rightharpoonup> uint64"
  fanin :: task
  publisher :: task
  ticker :: "Duration option"
  panicked :: "panic option"

definition NewSyncer ::
  "SyncAppPeerClient \<Rightarrow> SyncAppPeerService \<Rightarrow> host \<Rightarrow> EndpointApplication \<Rightarrow> syncer" where
  "NewSyncer client service h store =
     \<lparr>peerMap = Map.empty,
      syncAppPeerClient = client,
      syncAppPeerService = service,
      blockTimeout = 0,
      newStatusCh = make_chan 0,
      host = h,
      applicationStore = store,
      peersBlockNumMap = Map.empty,
      fanin = NotSpawned,
      publisher = NotSpawned,
      ticker = None,
      panicked = None\<rparr>"

subsection \<open>Methods\<close>

text \<open>
  \<open>PeerMap.Put\<close> stamps the entries with the current reading of the clock, which the
  methods that reach it take as the argument \<open>now\<close>.
\<close>

definition initializePeerMap :: "nat \<Rightarrow> syncer \<Rightarrow> syncer" where
  "initializePeerMap now s =
     (let peerStatuses = GetConnectedPeerStatuses (syncAppPeerClient s)
      in s\<lparr>peerMap := PeerMap_Put now peerStatuses (peerMap s)\<rparr>)"

text \<open>
  \<open>Close\<close> closes the signal channel, then the service, returning the service's error
  at once if there is one, and only then the client.
\<close>

definition Close :: "syncer \<Rightarrow> panic + error option \<times> syncer" where
  "Close s =
     (case close_chan (newStatusCh s) of
        Inl p \<Rightarrow> Inl p
      | Inr ch \<Rightarrow>
          (case service_Close (syncAppPeerService s) of
             (Some err, sv) \<Rightarrow>
               Inr (Some err, s\<lparr>newStatusCh := ch, syncAppPeerService := sv\<rparr>)
           | (None, sv) \<Rightarrow>
               Inr (None, s\<lparr>newStatusCh := ch, syncAppPeerService := sv,
                              syncAppPeerClient := client_Close (syncAppPeerClient s)\<rparr>)))"

text \<open>
  \<open>Start\<close> starts the client, returning its error if there is one, starts the service
  and spawns two goroutines: the fan-in, whose body is its loop, and the publisher. The
  call of \<open>startPeerConnectionEventProcess\<close> is commented out in the source.
\<close>

definition Start :: "bool \<Rightarrow> syncer \<Rightarrow> error option \<times> syncer" where
  "Start topicSubFlag s =
     (case client_Start topicSubFlag (syncAppPeerClient s) of
        (Some err, c) \<Rightarrow> (Some err, s\<lparr>syncAppPeerClient := c\<rparr>)
      | (None, c) \<Rightarrow>
          (None, s\<lparr>syncAppPeerClient := c,
                    syncAppPeerService := service_Start (syncAppPeerService s),
                    fanin := Looping,
                    publisher := Spawned\<rparr>))"

text \<open>
  \<open>doPublishAppStatus\<close>: the composite literal names fourteen of the sixteen fields of
  \<open>AppStatus\<close>; \<open>Relay\<close> is given the empty string, and \<open>GuageHeight\<close> and \<open>GuageMax\<close>,
  which it leaves out, take the zero value.
\<close>

definition doPublishAppStatus :: "syncer \<Rightarrow> syncer" where
  "doPublishAppStatus s =
     (let addr' = (if 0 < length (Addrs (host s)) then Addrs (host s) ! 0 else [])
      in s\<lparr>syncAppPeerClient :=
            PublishApplicationStatus
              \<lparr>name = Name (applicationStore s),
               startup_time = StartupTime (applicationStore s),
               uptime = Uptime (applicationStore s),
               guage_height = 0,
               guage_max = 0,
               relay = [],
               node_id = PeerID (applicationStore s),
               addr = addr',
               app_origin = AppOrigin (applicationStore s),
               model_hash = ModelHash (applicationStore s),
               mac = Mac (applicationStore s),
               memInfo = MemInfo (applicationStore s),
               cpu_info = CpuInfo (applicationStore s),
               average_power = AveragePower (applicationStore s),
               gpu_info = GpuInfo (applicationStore s),
               version = Version (applicationStore s)\<rparr>
              (syncAppPeerClient s)\<rparr>)"

definition notifyNewStatusEvent :: "syncer \<Rightarrow> panic + syncer" where
  "notifyNewStatusEvent s =
     (case select_send_default (newStatusCh s) of
        Inl p \<Rightarrow> Inl p
      | Inr (sent, ch) \<Rightarrow> Inr (s\<lparr>newStatusCh := ch\<rparr>))"

definition putToPeerMap :: "nat \<Rightarrow> AppPeer \<Rightarrow> syncer \<Rightarrow> panic + syncer" where
  "putToPeerMap now status s =
     notifyNewStatusEvent (s\<lparr>peerMap := PeerMap_Put now [status] (peerMap s)\<rparr>)"

definition GetAppPeer :: "string \<Rightarrow> syncer \<Rightarrow> AppPeer option" where
  "GetAppPeer peer s = PeerMap_Get peer (peerMap s)"

definition removeFromPeerMap :: "peer_ID \<Rightarrow> syncer \<Rightarrow> syncer" where
  "removeFromPeerMap peerID s = s\<lparr>peerMap := PeerMap_Remove peerID (peerMap s)\<rparr>"

subsection \<open>Runs\<close>

text \<open>
  What can happen to a syncer: a call of \<open>Start\<close> or \<open>Close\<close>; the publisher goroutine
  running its first statements (the first publication and the creation of the ticker);
  the ticker delivering a tick to the publisher; a message of the status topic
  reaching the subscriber at some time, which hands what it accepts to the fan-in over
  the update channel; the fan-in finding the update channel closed; the overlay
  reporting a peer connected or disconnected; the local endpoint changing its
  descriptor. A call is one step, and the goroutines take their steps between calls.
  Each goroutine acts only in the state it is in. A panic is not recovered anywhere in
  the source, so it ends the process: the state is kept as it was, marked with the
  panic, and nothing happens after it.
\<close>

datatype event =
    CallStart bool
  | CallClose
  | PublisherRuns
  | Tick
  | Inbound nat "AppStatus option"
  | FanInRuns
  | Connected peer_ID
  | Disconnected peer_ID
  | EndpointChanged EndpointApplication

fun react :: "event \<Rightarrow> syncer \<Rightarrow> syncer" where
  "react (CallStart topicSubFlag) s = snd (Start topicSubFlag s)"
| "react CallClose s =
     (case Close s of Inl p \<Rightarrow> s\<lparr>panicked := Some p\<rparr> | Inr (err, s') \<Rightarrow> s')"
| "react PublisherRuns s =
     (if publisher s = Spawned
      then (doPublishAppStatus s)\<lparr>publisher := Looping,
                                  ticker := Some DefaultAppStatusPublishDuration\<rparr>
      else s)"
| "react Tick s = (if publisher s = Looping then doPublishAppStatus s else s)"
| "react (Inbound now msg) s =
     (if fanin s = Looping then
        (case subscriber (host_ID (host s)) (syncAppPeerClient s) msg of
           None \<Rightarrow> s
         | Some peerStatus \<Rightarrow>
             (case putToPeerMap now peerStatus s of
                Inl p \<Rightarrow> s\<lparr>panicked := Some p\<rparr>
              | Inr s' \<Rightarrow> s'))
      else s)"
| "react FanInRuns s =
     (if fanin s = Looping \<and> cl_closed (syncAppPeerClient s) then s\<lparr>fanin := Exited\<rparr> else s)"
| "react (Connected peerID) s = s"
| "react (Disconnected peerID) s = s"
| "react (EndpointChanged a) s = s\<lparr>applicationStore := a\<rparr>"

definition step :: "event \<Rightarrow> syncer \<Rightarrow> syncer" where
  "step e s = (if panicked s = None then react e s else s)"

fun run :: "event list \<Rightarrow> syncer \<Rightarrow> syncer" where
  "run [] s = s"
| "run (e # es) s = run es (step e s)"

text \<open>The statuses handed to \<open>PublishApplicationStatus\<close> so far, oldest first.\<close>

definition published :: "syncer \<Rightarrow> AppStatus list" where
  "published s = cl_published (syncAppPeerClient s)"

subsection \<open>A concrete node\<close>

text \<open>
  A node with one listening address whose endpoint has three of eight slots taken, a
  remote status that the subscriber accepts and one whose gauge height exceeds its
  gauge max, and a service whose \<open>Close\<close> returns an error.
\<close>

definition client0 :: SyncAppPeerClient where
  "client0 =
     \<lparr>cl_startErr = None, cl_started = False, cl_subscribed = False, cl_closed = False,
      cl_published = [], cl_connectedPeerStatuses = []\<rparr>"

definition service0 :: SyncAppPeerService where
  "service0 = \<lparr>sv_closeErr = None, sv_started = False, sv_closed = False\<rparr>"

definition service_failing :: SyncAppPeerService where
  "service_failing =
     \<lparr>sv_closeErr = Some (Err ''close failed''), sv_started = False, sv_closed = False\<rparr>"

definition host0 :: host where
  "host0 = \<lparr>host_ID = ''self'', Addrs = [''/ip4/10.0.0.1/tcp/50001'']\<rparr>"

definition endpoint0 :: EndpointApplication where
  "endpoint0 =
     \<lparr>Name = ''app'', Tag = ''edge'', Version = ''1.0'', PeerID = ''self'',
      IpAddr = ''10.0.0.1'', AppOrigin = ''origin'', ModelHash = ''hash'', Mac = ''mac'',
      MemInfo = ''mem'', CpuInfo = ''cpu'', StartupTime = 100, Uptime = 7,
      GuageHeight = 3, GuageMax = 8, GpuInfo = ''gpu'', AveragePower = 0\<rparr>"

definition syncer0 :: syncer where
  "syncer0 = NewSyncer client0 service0 host0 endpoint0"

definition syncer_failing :: syncer where
  "syncer_failing = NewSyncer client0 service_failing host0 endpoint0"

definition status1 :: AppStatus where
  "status1 =
     \<lparr>name = ''remote'', startup_time = 5, uptime = 1, guage_height = 0, guage_max = 4,
      relay = [], node_id = ''peer1'', addr = ''/ip4/10.0.0.2/tcp/50001'',
      app_origin = ''origin'', model_hash = ''hash'', mac = ''mac'', memInfo = ''mem'',
      cpu_info = ''cpu'', average_power = 0, gpu_info = ''gpu'', version = ''1.0''\<rparr>"

definition status_over :: AppStatus where
  "status_over = status1\<lparr>guage_height := 5, node_id := ''peer2''\<rparr>"

subsection \<open>Auxiliary notions\<close>

text \<open>The same syncer with another answer of \<open>GetConnectedPeerStatuses\<close>.\<close>

definition set_connected :: "AppPeer list \<Rightarrow> syncer \<Rightarrow> syncer" where
  "set_connected ys s =
     s\<lparr>syncAppPeerClient := (syncAppPeerClient s)\<lparr>cl_connectedPeerStatuses := ys\<rparr>\<rparr>"

text \<open>Every entry of a peer map has its gauge height within its gauge max.\<close>

definition gauge_ok :: "PeerMap \<Rightarrow> bool" where
  "gauge_ok m = (\<forall>p a. m p = Some a \<longrightarrow> pGuageHeight a \<le> pGuageMax a)"

lemmas example_defs =
  syncer0_def syncer_failing_def NewSyncer_def client0_def service0_def service_failing_def
  host0_def endpoint0_def status1_def status_over_def make_chan_def

lemmas method_defs =
  step_def Start_def Close_def client_Start_def client_Close_def service_Start_def
  service_Close_def close_chan_def select_send_default_def doPublishAppStatus_def
  PublishApplicationStatus_def notifyNewStatusEvent_def putToPeerMap_def subscriber_def
  PeerMap_Put_def toAppPeer_def published_def GetAppPeer_def PeerMap_Get_def

section \<open>Application.Copy\<close>

text \<open>
  Claim C9. For every Application \<open>a\<close>, \<open>a.Copy()\<close> agrees with \<open>a\<close> on Name, Tag,
  Version, PeerID, StartupTime, Uptime, GuageHeight, GuageMax, IpAddr and AppOrigin, and
  its hardware fields ModelHash, Mac, MemInfo and CpuInfo are the empty string whatever
  \<open>a\<close> holds there.
\<close>

theorem Copy_fields:
  "Name (Copy a) = Name a \<and> Tag (Copy a) = Tag a \<and> Version (Copy a) = Version a \<and>
   PeerID (Copy a) = PeerID a \<and> StartupTime (Copy a) = StartupTime a \<and>
   Uptime (Copy a) = Uptime a \<and> GuageHeight (Copy a) = GuageHeight a \<and>
   GuageMax (Copy a) = GuageMax a \<and> IpAddr (Copy a) = IpAddr a \<and>
   AppOrigin (Copy a) = AppOrigin a \<and>
   ModelHash (Copy a) = [] \<and> Mac (Copy a) = [] \<and> MemInfo (Copy a) = [] \<and>
   CpuInfo (Copy a) = []"
  by (simp add: Copy_def)

section \<open>What a step does to the peer map\<close>

lemma peerMap_Start: "peerMap (snd (Start topicSubFlag s)) = peerMap s"
  by (simp add: Start_def split: prod.splits option.splits)

lemma peerMap_Close: "Close s = Inr (err, s') \<Longrightarrow> peerMap s' = peerMap s"
  by (auto simp add: Close_def split: prod.splits option.splits sum.splits)

lemma peerMap_doPublishAppStatus: "peerMap (doPublishAppStatus s) = peerMap s"
  by (simp add: doPublishAppStatus_def Let_def)

lemma peerMap_putToPeerMap:
  "putToPeerMap now p s = Inr s' \<Longrightarrow> peerMap s' = PeerMap_Put now [p] (peerMap s)"
  by (auto simp add: putToPeerMap_def notifyNewStatusEvent_def split: sum.splits prod.splits)

lemma subscriber_Some:
  "subscriber self c msg = Some p \<Longrightarrow>
   \<exists>st. msg = Some st \<and> p = toAppPeer st \<and> node_id st \<noteq> [] \<and> node_id st \<noteq> self \<and>
        guage_height st \<le> guage_max st \<and> cl_started c \<and> cl_subscribed c \<and> \<not> cl_closed c"
  by (auto simp add: subscriber_def split: if_splits option.splits)

text \<open>
  The only step that writes the peer map is the fan-in storing a status that the
  subscriber has accepted.
\<close>

lemma react_peerMap:
  "peerMap (react e s) = peerMap s \<or>
   (\<exists>now st. e = Inbound now (Some st) \<and> fanin s = Looping \<and>
      subscriber (host_ID (host s)) (syncAppPeerClient s) (Some st) = Some (toAppPeer st) \<and>
      peerMap (react e s) = PeerMap_Put now [toAppPeer st] (peerMap s))"
proof (cases e)
  case (CallStart f)
  then show ?thesis by (simp add: peerMap_Start)
next
  case CallClose
  then show ?thesis by (auto simp: peerMap_Close split: sum.splits)
next
  case (Inbound now msg)
  then show ?thesis
    by (auto simp: peerMap_putToPeerMap split: sum.splits option.splits dest: subscriber_Some)
qed (simp_all add: peerMap_doPublishAppStatus)

lemma step_peerMap:
  "peerMap (step e s) = peerMap s \<or>
   (\<exists>now st. e = Inbound now (Some st) \<and> fanin s = Looping \<and>
      subscriber (host_ID (host s)) (syncAppPeerClient s) (Some st) = Some (toAppPeer st) \<and>
      peerMap (step e s) = PeerMap_Put now [toAppPeer st] (peerMap s))"
  using react_peerMap[of e s] by (simp add: step_def)

lemma dom_PeerMap_Put: "dom (PeerMap_Put now ps m) = dom m \<union> ID ` set ps"
  unfolding PeerMap_Put_def
  by (induction ps arbitrary: m) auto

lemma PeerMap_Put_single: "PeerMap_Put now [p] m = m(ID p \<mapsto> p\<lparr>pLastSeen := now\<rparr>)"
  by (simp add: PeerMap_Put_def)

lemma toAppPeer_ID: "ID (toAppPeer st) = node_id st"
  by (simp add: toAppPeer_def)

lemma step_dom_mono: "dom (peerMap s) \<subseteq> dom (peerMap (step e s))"
proof -
  consider (same) "peerMap (step e s) = peerMap s"
    | (put) now st where "peerMap (step e s) = PeerMap_Put now [toAppPeer st] (peerMap s)"
    using step_peerMap[of e s] by blast
  then show ?thesis
    by cases (simp_all add: dom_PeerMap_Put subset_insertI)
qed

lemma run_dom_mono: "dom (peerMap s) \<subseteq> dom (peerMap (run evs s))"
proof (induction evs arbitrary: s)
  case Nil
  then show ?case by simp
next
  case (Cons e evs)
  have "dom (peerMap s) \<subseteq> dom (peerMap (step e s))" by (rule step_dom_mono)
  also have "\<dots> \<subseteq> dom (peerMap (run evs (step e s)))" by (rule Cons.IH)
  finally show ?case by simp
qed

lemma host_react: "host (react e s) = host s"
  by (cases e)
     (auto simp: Start_def Close_def doPublishAppStatus_def Let_def putToPeerMap_def
        notifyNewStatusEvent_def split: prod.splits option.splits sum.splits)

lemma host_step: "host (step e s) = host s"
  by (simp add: step_def host_react)

text \<open>
  The fan-in itself validates nothing (the source marks this as still to do): whatever
  status the update channel hands it is stored under its identifier.
\<close>

lemma putToPeerMap_stores:
  "\<not> ch_closed (newStatusCh s) \<Longrightarrow>
   \<exists>s'. putToPeerMap now p s = Inr s' \<and> peerMap s' (ID p) = Some (p\<lparr>pLastSeen := now\<rparr>)"
  by (simp add: putToPeerMap_def notifyNewStatusEvent_def select_send_default_def PeerMap_Put_def)

section \<open>The status publisher\<close>

text \<open>
  Claim C3, as amended. The claim has every wire field of a published status taken from
  the endpoint's snapshot, gauge height, gauge max and relay among them. The code does
  otherwise by construction of its literal. What holds: each call of
  \<open>doPublishAppStatus\<close> publishes exactly one status; its name, node id, uptime, startup
  time, app origin, mac, cpu info, gpu info, memory info, model hash, average power and
  version are those of the endpoint at that moment; its address is the host's first
  listening address, or the empty string if the host has none; its relay is always the
  empty string and its gauge height and gauge max are always zero.
\<close>

theorem doPublishAppStatus_fields:
  "published (doPublishAppStatus s) =
     published s @
     [\<lparr>name = Name (applicationStore s),
       startup_time = StartupTime (applicationStore s),
       uptime = Uptime (applicationStore s),
       guage_height = 0,
       guage_max = 0,
       relay = [],
       node_id = PeerID (applicationStore s),
       addr = (case Addrs (host s) of [] \<Rightarrow> [] | a # rest \<Rightarrow> a),
       app_origin = AppOrigin (applicationStore s),
       model_hash = ModelHash (applicationStore s),
       mac = Mac (applicationStore s),
       memInfo = MemInfo (applicationStore s),
       cpu_info = CpuInfo (applicationStore s),
       average_power = AveragePower (applicationStore s),
       gpu_info = GpuInfo (applicationStore s),
       version = Version (applicationStore s)\<rparr>]"
  by (simp add: published_def doPublishAppStatus_def PublishApplicationStatus_def
        split: list.splits)

text \<open>
  The claim as it was stated fails on the concrete node: its endpoint has three of eight
  slots taken, and the status published carries neither number.
\<close>

theorem doPublishAppStatus_gauge_counterexample:
  "guage_height (last (published (doPublishAppStatus syncer0))) \<noteq>
     GuageHeight (applicationStore syncer0) \<and>
   guage_max (last (published (doPublishAppStatus syncer0))) \<noteq>
     GuageMax (applicationStore syncer0)"
  by (simp add: example_defs method_defs)

lemma published_doPublishAppStatus:
  "length (published (doPublishAppStatus s)) = Suc (length (published s))"
  by (simp add: published_def doPublishAppStatus_def PublishApplicationStatus_def Let_def)

lemma published_update: "published (s\<lparr>publisher := t, ticker := d\<rparr>) = published s"
  by (simp add: published_def)

lemma doPublishAppStatus_tasks:
  "publisher (doPublishAppStatus s) = publisher s \<and>
   panicked (doPublishAppStatus s) = panicked s \<and>
   ticker (doPublishAppStatus s) = ticker s"
  by (simp add: doPublishAppStatus_def Let_def)

text \<open>Inside its loop the publisher publishes once for each tick, and stays there.\<close>

lemma ticks_publish:
  "publisher s = Looping \<Longrightarrow> panicked s = None \<Longrightarrow>
   length (published (run (replicate n Tick) s)) = length (published s) + n \<and>
   publisher (run (replicate n Tick) s) = Looping \<and>
   ticker (run (replicate n Tick) s) = ticker s \<and>
   panicked (run (replicate n Tick) s) = None"
proof (induction n arbitrary: s)
  case 0
  then show ?case by simp
next
  case (Suc n)
  have tick: "step Tick s = doPublishAppStatus s"
    using Suc.prems by (simp add: step_def)
  show ?case
    using Suc.IH[of "doPublishAppStatus s"] Suc.prems
    by (simp add: tick doPublishAppStatus_tasks published_doPublishAppStatus)
qed

lemma Start_succeeds:
  "fst (Start topicSubFlag s) = None \<Longrightarrow>
   publisher (snd (Start topicSubFlag s)) = Spawned \<and>
   fanin (snd (Start topicSubFlag s)) = Looping \<and>
   panicked (snd (Start topicSubFlag s)) = panicked s \<and>
   published (snd (Start topicSubFlag s)) = published s"
  by (auto simp: Start_def client_Start_def published_def
        split: prod.splits option.splits if_splits)

text \<open>
  Claim C8. After \<open>Start\<close> has succeeded, the publisher publishes once at once, without
  waiting for a tick, and then once for each tick of its ticker, whose period is
  \<open>DefaultAppStatusPublishDuration\<close>, fifteen minutes in nanoseconds: \<open>Start\<close> itself
  publishes nothing, and once the publisher goroutine has run and \<open>n\<close> ticks have been
  delivered there are exactly \<open>n + 1\<close> publications more than before \<open>Start\<close>.
\<close>

theorem publisher_cadence:
  assumes "panicked s = None" and "fst (Start topicSubFlag s) = None"
  shows "published (snd (Start topicSubFlag s)) = published s \<and>
    length (published (run (PublisherRuns # replicate n Tick) (snd (Start topicSubFlag s)))) =
      length (published s) + 1 + n \<and>
    ticker (run (PublisherRuns # replicate n Tick) (snd (Start topicSubFlag s))) =
      Some DefaultAppStatusPublishDuration \<and>
    sint DefaultAppStatusPublishDuration = 15 * 60 * 1000000000"
proof -
  let ?s1 = "snd (Start topicSubFlag s)"
  have s1: "publisher ?s1 = Spawned" "panicked ?s1 = None" "published ?s1 = published s"
    using Start_succeeds[OF assms(2)] assms(1) by simp_all
  let ?s2 = "step PublisherRuns ?s1"
  have s2: "publisher ?s2 = Looping" "panicked ?s2 = None"
    "length (published ?s2) = length (published s) + 1"
    "ticker ?s2 = Some DefaultAppStatusPublishDuration"
    using s1
    by (simp_all add: step_def doPublishAppStatus_tasks published_doPublishAppStatus
          published_update)
  from ticks_publish[OF s2(1) s2(2), of n] s2 s1 show ?thesis
    by (simp add: DefaultAppStatusPublishDuration_def time_Second_def)
qed

theorem publisher_cadence_witness:
  "panicked syncer0 = None \<and> fst (Start True syncer0) = None \<and>
   length (published (run (PublisherRuns # replicate 3 Tick) (snd (Start True syncer0)))) = 4 \<and>
   ticker (run (PublisherRuns # replicate 3 Tick) (snd (Start True syncer0))) =
     Some DefaultAppStatusPublishDuration"
proof -
  have h1: "panicked syncer0 = None" by (simp add: example_defs)
  have h2: "fst (Start True syncer0) = None" by (simp add: example_defs method_defs)
  have h3: "published syncer0 = []" by (simp add: example_defs method_defs)
  from publisher_cadence[OF h1 h2, of 3] h1 h2 h3 show ?thesis by simp
qed

text \<open>No step makes the publisher return: its loop has no exit.\<close>

lemma publisher_react: "publisher (react e s) = Exited \<Longrightarrow> publisher s = Exited"
  by (cases e)
     (auto simp: Start_def Close_def doPublishAppStatus_def Let_def putToPeerMap_def
        notifyNewStatusEvent_def split: prod.splits option.splits sum.splits if_splits)

lemma publisher_never_exits: "publisher (run evs s) = Exited \<Longrightarrow> publisher s = Exited"
  by (induction evs arbitrary: s) (auto simp: step_def dest: publisher_react split: if_splits)

text \<open>
  Claim C1 has every goroutine that \<open>Start\<close> spawned exited once \<open>Close\<close> has returned,
  the publisher's tick loop in particular. The code does not do this. On the concrete
  node, \<open>Start\<close> succeeds, the publisher publishes once, \<open>Close\<close> returns no error and the
  fan-in returns; the publisher is still in its loop, and the next tick makes it publish
  again.
\<close>

theorem publisher_survives_Close:
  "(case Close (run [CallStart True, PublisherRuns] syncer0) of
      Inl p \<Rightarrow> False
    | Inr (err, s') \<Rightarrow> err = None) \<and>
   fanin (run [CallStart True, PublisherRuns, CallClose, FanInRuns] syncer0) = Exited \<and>
   publisher (run [CallStart True, PublisherRuns, CallClose, FanInRuns] syncer0) = Looping \<and>
   length (published (run [CallStart True, PublisherRuns, CallClose, FanInRuns] syncer0)) = 1 \<and>
   publisher (run [CallStart True, PublisherRuns, CallClose, FanInRuns, Tick] syncer0) = Looping \<and>
   length (published (run [CallStart True, PublisherRuns, CallClose, FanInRuns, Tick] syncer0)) = 2"
  by (simp add: example_defs method_defs)

section \<open>Close and the signal channel\<close>

text \<open>
  Claim C4 has \<open>Close\<close> close the signal, the service and the client whatever the
  service's close returns. The code does not do this. On the concrete node whose service
  fails to close, \<open>Close\<close> after \<open>Start\<close> returns the service's error with the signal
  channel closed and the service's \<open>Close\<close> called, but the client is not closed, so the
  update channel stays open and the fan-in stays in its loop.
\<close>

theorem Close_service_error_skips_client:
  "(case Close (run [CallStart True] syncer_failing) of
      Inl p \<Rightarrow> None
    | Inr (err, s') \<Rightarrow> err) = Some (Err ''close failed'') \<and>
   ch_closed (newStatusCh (run [CallStart True, CallClose] syncer_failing)) \<and>
   sv_closed (syncAppPeerService (run [CallStart True, CallClose] syncer_failing)) \<and>
   \<not> cl_closed (syncAppPeerClient (run [CallStart True, CallClose] syncer_failing)) \<and>
   fanin (run [CallStart True, CallClose, FanInRuns] syncer_failing) = Looping"
  by (simp add: example_defs method_defs)

text \<open>
  On an open channel the signal is fire-and-forget: the call returns, the channel stays
  open with its capacity, and a buffer within the capacity stays within it.
\<close>

lemma notifyNewStatusEvent_open:
  "\<not> ch_closed (newStatusCh s) \<Longrightarrow>
   \<exists>s'. notifyNewStatusEvent s = Inr s' \<and> \<not> ch_closed (newStatusCh s') \<and>
        ch_cap (newStatusCh s') = ch_cap (newStatusCh s) \<and>
        (ch_buf (newStatusCh s) \<le> ch_cap (newStatusCh s) \<longrightarrow>
         ch_buf (newStatusCh s') \<le> ch_cap (newStatusCh s'))"
  by (auto simp: notifyNewStatusEvent_def select_send_default_def)

text \<open>
  Claim C5 has \<open>notifyNewStatusEvent\<close> return normally in every state of the signal
  channel, also after \<open>Close\<close> has closed it. The code does not do this. After \<open>Close\<close>
  the call panics with a send on a closed channel; and on the node whose service fails
  to close, where the subscriber and the fan-in go on after \<open>Close\<close>, the next status
  that arrives ends the process with that panic.
\<close>

theorem notifyNewStatusEvent_closed_panics:
  "notifyNewStatusEvent (run [CallStart True, CallClose] syncer0) = Inl send_on_closed_channel \<and>
   panicked (run [CallStart True, CallClose, Inbound 1 (Some status1)] syncer_failing) =
     Some send_on_closed_channel"
  by (simp add: example_defs method_defs)

section \<open>The peer map\<close>

text \<open>
  Claim C2, as amended. The claim has a \<open>disconnected(P)\<close> event of the overlay remove
  the entry of \<open>P\<close>. \<open>Start\<close> spawns no task that listens to connection events (the call
  that would is commented out), so what holds is: a \<open>disconnected(P)\<close> event leaves the
  syncer as it is; no run of the syncer removes an entry from the peer map; an entry
  goes only by \<open>removeFromPeerMap(P)\<close>, which nothing calls, and after it
  \<open>GetAppPeer(P)\<close> is absent.
\<close>

theorem disconnected_leaves_PeerMap:
  "step (Disconnected P) s = s \<and>
   dom (peerMap s) \<subseteq> dom (peerMap (run evs s)) \<and>
   GetAppPeer P (removeFromPeerMap P s) = None"
  by (simp add: step_def run_dom_mono GetAppPeer_def removeFromPeerMap_def PeerMap_Get_def
        PeerMap_Remove_def)

text \<open>
  The claim as it was stated fails on the concrete node: the status of \<open>peer1\<close> is in
  the peer map after \<open>Start\<close>, and it is still there after \<open>disconnected(peer1)\<close>.
\<close>

theorem disconnected_counterexample:
  "GetAppPeer ''peer1'' (run [CallStart True, Inbound 1 (Some status1)] syncer0) =
     Some ((toAppPeer status1)\<lparr>pLastSeen := 1\<rparr>) \<and>
   GetAppPeer ''peer1''
     (run [CallStart True, Inbound 1 (Some status1), Disconnected ''peer1''] syncer0) =
     Some ((toAppPeer status1)\<lparr>pLastSeen := 1\<rparr>)"
  by (simp add: example_defs method_defs)

subsection \<open>The answer of \<open>GetConnectedPeerStatuses\<close> has no influence\<close>

lemma set_connected_sel:
  "fanin (set_connected ys s) = fanin s"
  "publisher (set_connected ys s) = publisher s"
  "panicked (set_connected ys s) = panicked s"
  "host (set_connected ys s) = host s"
  "peerMap (set_connected ys s) = peerMap s"
  "syncAppPeerClient (set_connected ys s) =
     (syncAppPeerClient s)\<lparr>cl_connectedPeerStatuses := ys\<rparr>"
  by (simp_all add: set_connected_def)

lemma set_connected_upd:
  "(set_connected ys s)\<lparr>panicked := x\<rparr> = set_connected ys (s\<lparr>panicked := x\<rparr>)"
  "(set_connected ys s)\<lparr>fanin := t\<rparr> = set_connected ys (s\<lparr>fanin := t\<rparr>)"
  "(set_connected ys s)\<lparr>applicationStore := a\<rparr> = set_connected ys (s\<lparr>applicationStore := a\<rparr>)"
  "(set_connected ys s)\<lparr>publisher := t, ticker := d\<rparr> =
     set_connected ys (s\<lparr>publisher := t, ticker := d\<rparr>)"
  by (simp_all add: set_connected_def)

lemma subscriber_set_connected:
  "subscriber self (c\<lparr>cl_connectedPeerStatuses := ys\<rparr>) msg = subscriber self c msg"
  by (simp add: subscriber_def)

lemma Start_set_connected:
  "snd (Start f (set_connected ys s)) = set_connected ys (snd (Start f s))"
  by (simp add: Start_def set_connected_def client_Start_def split: option.splits)

lemma Close_set_connected:
  "Close (set_connected ys s) = map_sum id (map_prod id (set_connected ys)) (Close s)"
  by (simp add: Close_def set_connected_def client_Close_def service_Close_def close_chan_def
        split: option.splits)

lemma doPublishAppStatus_set_connected:
  "doPublishAppStatus (set_connected ys s) = set_connected ys (doPublishAppStatus s)"
  by (simp add: doPublishAppStatus_def set_connected_def PublishApplicationStatus_def Let_def)

lemma putToPeerMap_set_connected:
  "putToPeerMap now p (set_connected ys s) = map_sum id (set_connected ys) (putToPeerMap now p s)"
  by (simp add: putToPeerMap_def notifyNewStatusEvent_def set_connected_def
        split: sum.splits prod.splits)

lemma react_set_connected: "react e (set_connected ys s) = set_connected ys (react e s)"
proof (cases e)
  case (CallStart f)
  then show ?thesis by (simp add: Start_set_connected)
next
  case CallClose
  then show ?thesis
    by (cases "Close s") (auto simp: Close_set_connected set_connected_upd)
next
  case PublisherRuns
  then show ?thesis
    by (simp add: doPublishAppStatus_set_connected set_connected_sel set_connected_upd)
next
  case Tick
  then show ?thesis by (simp add: doPublishAppStatus_set_connected set_connected_sel)
next
  case (Inbound now msg)
  show ?thesis
  proof (cases "subscriber (host_ID (host s)) (syncAppPeerClient s) msg")
    case None
    then show ?thesis using Inbound
      by (simp add: set_connected_sel subscriber_set_connected)
  next
    case (Some p)
    then show ?thesis using Inbound
      by (cases "putToPeerMap now p s")
         (simp_all add: set_connected_sel set_connected_upd subscriber_set_connected
            putToPeerMap_set_connected)
  qed
next
  case FanInRuns
  then show ?thesis by (simp add: set_connected_sel set_connected_upd)
next
  case (Connected peerID)
  then show ?thesis by simp
next
  case (Disconnected peerID)
  then show ?thesis by simp
next
  case (EndpointChanged a)
  then show ?thesis by (simp add: set_connected_upd)
qed

lemma step_set_connected: "step e (set_connected ys s) = set_connected ys (step e s)"
  by (simp add: step_def react_set_connected set_connected_sel)

lemma run_set_connected: "run evs (set_connected ys s) = set_connected ys (run evs s)"
  by (induction evs arbitrary: s) (simp_all add: step_set_connected)

text \<open>What \<open>initializePeerMap\<close> would do, were it called: store every connected status.\<close>

lemma initializePeerMap_seeds:
  "dom (peerMap (initializePeerMap now s)) =
     dom (peerMap s) \<union> ID ` set (cl_connectedPeerStatuses (syncAppPeerClient s))"
  by (simp add: initializePeerMap_def GetConnectedPeerStatuses_def dom_PeerMap_Put)

text \<open>
  Claim C10. The syncer never seeds the peer map from \<open>GetConnectedPeerStatuses\<close>:
  \<open>Start\<close> leaves the peer map as it is; in every run of a new syncer the peer map is
  the same whatever list \<open>GetConnectedPeerStatuses\<close> would return; and every step
  either leaves the peer map as it is or is the fan-in, in its loop, putting the status
  it has taken from the update channel.
\<close>

theorem PeerMap_never_seeded:
  "peerMap (snd (Start topicSubFlag s)) = peerMap s \<and>
   peerMap (run evs (NewSyncer (c\<lparr>cl_connectedPeerStatuses := statuses\<rparr>) sv h a)) =
     peerMap (run evs (NewSyncer c sv h a)) \<and>
   (peerMap (step e s) = peerMap s \<or>
    (\<exists>now st. e = Inbound now (Some st) \<and> fanin s = Looping \<and>
       peerMap (step e s) = PeerMap_Put now [toAppPeer st] (peerMap s)))"
proof -
  have "NewSyncer (c\<lparr>cl_connectedPeerStatuses := statuses\<rparr>) sv h a =
        set_connected statuses (NewSyncer c sv h a)"
    by (simp add: NewSyncer_def set_connected_def)
  then have "peerMap (run evs (NewSyncer (c\<lparr>cl_connectedPeerStatuses := statuses\<rparr>) sv h a)) =
     peerMap (run evs (NewSyncer c sv h a))"
    by (simp add: run_set_connected set_connected_sel)
  moreover have "peerMap (step e s) = peerMap s \<or>
    (\<exists>now st. e = Inbound now (Some st) \<and> fanin s = Looping \<and>
       peerMap (step e s) = PeerMap_Put now [toAppPeer st] (peerMap s))"
    using step_peerMap[of e s] by blast
  ultimately show ?thesis by (simp add: peerMap_Start)
qed

subsection \<open>What the subscriber keeps out\<close>

lemma step_absent:
  assumes "k = [] \<or> k = host_ID (host s)" and "peerMap s k = None"
  shows "peerMap (step e s) k = None"
  using step_peerMap[of e s] assms
  by (auto simp: PeerMap_Put_single toAppPeer_ID dest!: subscriber_Some)

lemma run_absent:
  "k = [] \<or> k = host_ID (host s) \<Longrightarrow> peerMap s k = None \<Longrightarrow> peerMap (run evs s) k = None"
proof (induction evs arbitrary: s)
  case Nil
  then show ?case by simp
next
  case (Cons e evs)
  then show ?case by (simp add: step_absent host_step)
qed

text \<open>
  Claim C6. A status message whose peer identifier is this node's own, or empty, never
  creates an entry in the peer map: in every run of a new syncer the peer map has no
  entry under the node's identifier and none under the empty identifier, and a step
  that brings such a message leaves the syncer as it is, so the message does not reach
  \<open>PeerMap.Put\<close>. The discarding is the subscriber's; the fan-in stores what it is
  handed.
\<close>

theorem self_status_never_stored:
  "GetAppPeer (host_ID h) (run evs (NewSyncer c sv h a)) = None \<and>
   GetAppPeer [] (run evs (NewSyncer c sv h a)) = None \<and>
   step (Inbound now (Some (st\<lparr>node_id := host_ID (host s)\<rparr>))) s = s \<and>
   step (Inbound now (Some (st\<lparr>node_id := []\<rparr>))) s = s"
proof -
  have "peerMap (run evs (NewSyncer c sv h a)) (host_ID h) = None"
    using run_absent[of "host_ID h" "NewSyncer c sv h a" evs] by (simp add: NewSyncer_def)
  moreover have "peerMap (run evs (NewSyncer c sv h a)) [] = None"
    using run_absent[of "[]" "NewSyncer c sv h a" evs] by (simp add: NewSyncer_def)
  ultimately show ?thesis
    by (simp add: GetAppPeer_def PeerMap_Get_def step_def subscriber_def)
qed

theorem self_status_never_stored_witness:
  "GetAppPeer ''self''
     (run [CallStart True, Inbound 1 (Some (status1\<lparr>node_id := ''self''\<rparr>)),
           Inbound 2 (Some status1)] syncer0) = None \<and>
   GetAppPeer ''peer1''
     (run [CallStart True, Inbound 1 (Some (status1\<lparr>node_id := ''self''\<rparr>)),
           Inbound 2 (Some status1)] syncer0) = Some ((toAppPeer status1)\<lparr>pLastSeen := 2\<rparr>)"
proof -
  have "GetAppPeer ''peer1''
     (run [CallStart True, Inbound 1 (Some (status1\<lparr>node_id := ''self''\<rparr>)),
           Inbound 2 (Some status1)] syncer0) = Some ((toAppPeer status1)\<lparr>pLastSeen := 2\<rparr>)"
    by (simp add: example_defs method_defs)
  moreover have "host_ID host0 = ''self''" by (simp add: host0_def)
  ultimately show ?thesis
    using self_status_never_stored[of host0
        "[CallStart True, Inbound 1 (Some (status1\<lparr>node_id := ''self''\<rparr>)),
          Inbound 2 (Some status1)]" client0 service0 endpoint0]
    unfolding syncer0_def by simp
qed

lemma step_gauge_ok: "gauge_ok (peerMap s) \<Longrightarrow> gauge_ok (peerMap (step e s))"
  using step_peerMap[of e s]
  by (auto simp: gauge_ok_def PeerMap_Put_single toAppPeer_def dest!: subscriber_Some
        split: if_splits)

lemma run_gauge_ok: "gauge_ok (peerMap s) \<Longrightarrow> gauge_ok (peerMap (run evs s))"
  by (induction evs arbitrary: s) (simp_all add: step_gauge_ok)

lemma step_discards_over:
  "guage_max st < guage_height st \<Longrightarrow> step (Inbound now (Some st)) s = s"
  by (simp add: step_def subscriber_def)

text \<open>
  Claim C7. For every sequence of inbound status messages the peer map never holds an
  entry whose gauge height exceeds its gauge max: in every run of a new syncer each
  entry that \<open>GetAppPeer\<close> returns has its gauge height within its gauge max, and a
  message that violates this is discarded, leaving the syncer as it is, so that it is
  not passed to \<open>PeerMap.Put\<close> and the messages after it are processed as before. The
  discarding is the subscriber's; the fan-in stores what it is handed.
\<close>

theorem gauge_invariant:
  "(\<forall>p peer. GetAppPeer p (run evs (NewSyncer c sv h a)) = Some peer \<longrightarrow>
      pGuageHeight peer \<le> pGuageMax peer) \<and>
   (\<forall>now st s. guage_max st < guage_height st \<longrightarrow> step (Inbound now (Some st)) s = s)"
proof -
  have "gauge_ok (peerMap (NewSyncer c sv h a))"
    by (simp add: gauge_ok_def NewSyncer_def)
  then have "gauge_ok (peerMap (run evs (NewSyncer c sv h a)))"
    by (rule run_gauge_ok)
  then show ?thesis
    by (simp add: gauge_ok_def GetAppPeer_def PeerMap_Get_def step_discards_over)
qed

theorem gauge_invariant_witness:
  "guage_max status_over < guage_height status_over \<and>
   step (Inbound 1 (Some status_over)) (run [CallStart True] syncer0) =
     run [CallStart True] syncer0 \<and>
   (\<exists>peer. GetAppPeer ''peer1''
       (run [CallStart True, Inbound 1 (Some status_over), Inbound 2 (Some status1)] syncer0) =
       Some peer \<and> pGuageHeight peer \<le> pGuageMax peer)"
proof -
  have over: "guage_max status_over < guage_height status_over"
    by (simp add: status_over_def status1_def)
  have entry: "GetAppPeer ''peer1''
      (run [CallStart True, Inbound 1 (Some status_over), Inbound 2 (Some status1)] syncer0) =
      Some ((toAppPeer status1)\<lparr>pLastSeen := 2\<rparr>)"
    by (simp add: example_defs method_defs)
  from gauge_invariant[of "[CallStart True, Inbound 1 (Some status_over), Inbound 2 (Some status1)]"
      client0 service0 host0 endpoint0] over entry
  show ?thesis unfolding syncer0_def by blast
qed

end
